theory Spec2Isabelle
  imports Complex_Main "HOL-Library.Sublist"
begin

section \<open>Python strings\<close>

text \<open>
  Strings are lists of 8-bit characters. \<open>lower\<close> is Python's \<open>str.lower\<close> on ASCII
  letters, \<open>strip\<close> and \<open>split\<close> are \<open>str.strip()\<close> and \<open>str.split()\<close> without
  arguments, \<open>str_in a b\<close> is the substring test \<open>a in b\<close>.
\<close>

definition lower_char :: "char \<Rightarrow> char" where
  "lower_char c =
     (case map_of (zip ''ABCDEFGHIJKLMNOPQRSTUVWXYZ'' ''abcdefghijklmnopqrstuvwxyz'') c of
        Some d \<Rightarrow> d
      | None \<Rightarrow> c)"

definition lower :: "string \<Rightarrow> string" where
  "lower s = map lower_char s"

definition is_space :: "char \<Rightarrow> bool" where
  "is_space c = (c \<in> set [CHR '' '', CHR 0x09, CHR 0x0A, CHR 0x0B, CHR 0x0C, CHR 0x0D,
                           CHR 0x1C, CHR 0x1D, CHR 0x1E, CHR 0x1F])"

definition strip :: "string \<Rightarrow> string" where
  "strip s = rev (dropWhile is_space (rev (dropWhile is_space s)))"

fun split_acc :: "string \<Rightarrow> string \<Rightarrow> string list" where
  "split_acc w [] = (if w = [] then [] else [rev w])"
| "split_acc w (c # cs) =
     (if is_space c then (if w = [] then split_acc [] cs else rev w # split_acc [] cs)
      else split_acc (c # w) cs)"

definition split :: "string \<Rightarrow> string list" where
  "split s = split_acc [] s"

fun str_in :: "string \<Rightarrow> string \<Rightarrow> bool" where
  "str_in sub [] = (sub = [])"
| "str_in sub (c # cs) = (prefix sub (c # cs) \<or> str_in sub cs)"

definition startswith :: "string \<Rightarrow> string \<Rightarrow> bool" where
  "startswith s pre = prefix pre s"

text \<open>The loop \<open>for x in xs: if P(x): return x\<close>, with \<open>None\<close> when it falls through.\<close>

fun first_such :: "('a \<Rightarrow> bool) \<Rightarrow> 'a list \<Rightarrow> 'a option" where
  "first_such P [] = None"
| "first_such P (x # xs) = (if P x then Some x else first_such P xs)"

section \<open>Final reconciliation: \<open>AgenticReasoningSystem._refine_answer\<close>\<close>

definition refine_status_strings :: "string list" where
  "refine_status_strings = [''processed'', ''calculated'', ''verified'', ''Another answer'']"

definition unable :: string where
  "unable = ''Unable to determine answer''"

definition exact_match :: "string \<Rightarrow> string \<Rightarrow> bool" where
  "exact_match p opt = (strip (lower p) = strip (lower opt))"

definition answer_in_option :: "string \<Rightarrow> string \<Rightarrow> bool" where
  "answer_in_option p opt = str_in (lower p) (lower opt)"

definition option_in_answer :: "string \<Rightarrow> string \<Rightarrow> bool" where
  "option_in_answer p opt = str_in (lower opt) (lower p)"

text \<open>\<open>set(opt.lower().split()) & set(answer.lower().split())\<close>, as the list of common words.\<close>

definition common_words :: "string \<Rightarrow> string \<Rightarrow> string list" where
  "common_words p opt =
     remdups (filter (\<lambda>w. w \<in> set (split (lower p))) (split (lower opt)))"

definition words_overlap :: "string \<Rightarrow> string \<Rightarrow> bool" where
  "words_overlap p opt = (common_words p opt \<noteq> [])"

text \<open>
  The verification result is an argument of the source function that its body never reads;
  it is left out. \<open>options\<close> is \<open>None\<close> or a list; an empty list is falsy, as \<open>None\<close> is.
\<close>

definition refine_answer :: "string \<Rightarrow> string list option \<Rightarrow> string" where
  "refine_answer preliminary_answer options =
     (case options of
        None \<Rightarrow> preliminary_answer
      | Some opts \<Rightarrow>
          if opts = [] then preliminary_answer
          else
            (case first_such (exact_match preliminary_answer) opts of
               Some opt \<Rightarrow> opt
             | None \<Rightarrow>
            (case first_such (answer_in_option preliminary_answer) opts of
               Some opt \<Rightarrow> opt
             | None \<Rightarrow>
            (case first_such (option_in_answer preliminary_answer) opts of
               Some opt \<Rightarrow> opt
             | None \<Rightarrow>
            (case (if preliminary_answer \<notin> set refine_status_strings
                   then first_such (words_overlap preliminary_answer) opts else None) of
               Some opt \<Rightarrow> opt
             | None \<Rightarrow>
                 if (preliminary_answer \<in> set refine_status_strings \<or> preliminary_answer = []
                     \<or> preliminary_answer = unable)
                    \<and> ''Another answer'' \<in> set opts
                 then ''Another answer''
                 else preliminary_answer)))))"

section \<open>Numbers and their renderings\<close>

text \<open>
  Python's \<open>int\<close> is \<open>int\<close>. A \<open>float\<close> is a binary64 value: a rational that
  binary64 represents, or one of the three non-finite values; the sign of zero is not
  kept. \<open>str\<close> of a float (the shortest decimal that reads back) is not fixed by this
  development: every function that prints a float takes the printer \<open>fstr\<close> as its first
  argument, and every theorem holds for all printers.
\<close>

datatype pyfloat = Finite rat | PosInf | NegInf | NaN

subsection \<open>Binary64 rounding\<close>

text \<open>
  \<open>round64_parts q\<close>, for a positive rational \<open>n/d\<close>, is the significand and the
  exponent of the binary64 value nearest to \<open>q\<close>, ties to the even significand. The
  exponent is that of the last place of \<open>q\<close>'s binade, and not below that of the
  subnormals; \<open>binade\<close> finds the binade by doubling the denominator or the numerator,
  its first argument bounds the number of steps, and 2100 steps reach every binade of
  binary64, beyond which the result is the same (infinity above, zero below). The
  significand is the quotient of two integers, rounded. A value overflows when its
  rounding reaches \<open>2 ^ 1024\<close>.
\<close>

definition pow2 :: "int \<Rightarrow> rat" where
  "pow2 k = (if 0 \<le> k then of_int (2 ^ nat k) else 1 / of_int (2 ^ nat (- k)))"

definition round_ratio :: "int \<Rightarrow> int \<Rightarrow> int" where
  "round_ratio n d =
     (let m = n div d; r = n mod d
      in if 2 * r < d then m else if d < 2 * r then m + 1 else if even m then m else m + 1)"

fun binade :: "nat \<Rightarrow> int \<Rightarrow> int \<Rightarrow> int \<Rightarrow> int" where
  "binade 0 n d k = k"
| "binade (Suc f) n d k =
     (if 2 * d \<le> n then binade f n (2 * d) (k + 1)
      else if n < d then binade f (2 * n) d (k - 1)
      else k)"

definition round64_parts :: "rat \<Rightarrow> int \<times> int" where
  "round64_parts q =
     (let (n, d) = quotient_of q;
          e = max (- 1074) (binade 2100 n d 0 - 52)
      in (if 0 \<le> e then round_ratio n (d * 2 ^ nat e) else round_ratio (n * 2 ^ nat (- e)) d, e))"

definition r64 :: "rat \<Rightarrow> rat" where
  "r64 q =
     (if q = 0 then 0
      else (let (m, e) = round64_parts \<bar>q\<bar>
            in if 0 < q then of_int m * pow2 e else - (of_int m * pow2 e)))"

definition overflows :: "rat \<Rightarrow> bool" where
  "overflows q =
     (q \<noteq> 0 \<and> (let (m, e) = round64_parts \<bar>q\<bar>
                in 971 < e \<or> (e = 971 \<and> 9007199254740992 \<le> m)))"

definition to_float :: "rat \<Rightarrow> pyfloat" where
  "to_float q = (if overflows q then (if 0 < q then PosInf else NegInf) else Finite (r64 q))"

text \<open>
  The four operations on finite floats whose results stay finite (the verifier's
  confidences lie between 0 and 1): the exact result, rounded. \<open>fsum\<close> is \<open>sum\<close> over a
  list of floats as CPython 3.10 and 3.11 compute it, the versions that \<open>setup.py\<close>
  names: from the integer 0, adding from left to right.
\<close>

definition fadd :: "rat \<Rightarrow> rat \<Rightarrow> rat" where
  "fadd a b = r64 (a + b)"

definition fsub :: "rat \<Rightarrow> rat \<Rightarrow> rat" where
  "fsub a b = r64 (a - b)"

definition fmul :: "rat \<Rightarrow> rat \<Rightarrow> rat" where
  "fmul a b = r64 (a * b)"

definition fdiv :: "rat \<Rightarrow> rat \<Rightarrow> rat" where
  "fdiv a b = r64 (a / b)"

definition fsum :: "rat list \<Rightarrow> rat" where
  "fsum xs = foldl fadd 0 xs"

text \<open>
  Addition and division on all floats. Division by zero raises \<open>ZeroDivisionError\<close>,
  whatever the dividend: that is \<open>None\<close>.
\<close>

fun fadd_py :: "pyfloat \<Rightarrow> pyfloat \<Rightarrow> pyfloat" where
  "fadd_py (Finite a) (Finite b) = to_float (a + b)"
| "fadd_py NaN _ = NaN"
| "fadd_py _ NaN = NaN"
| "fadd_py PosInf NegInf = NaN"
| "fadd_py NegInf PosInf = NaN"
| "fadd_py PosInf _ = PosInf"
| "fadd_py NegInf _ = NegInf"
| "fadd_py (Finite a) PosInf = PosInf"
| "fadd_py (Finite a) NegInf = NegInf"

fun fdiv_py :: "pyfloat \<Rightarrow> pyfloat \<Rightarrow> pyfloat option" where
  "fdiv_py x (Finite b) =
     (if b = 0 then None
      else Some (case x of
                   Finite a \<Rightarrow> to_float (a / b)
                 | PosInf \<Rightarrow> if 0 < b then PosInf else NegInf
                 | NegInf \<Rightarrow> if 0 < b then NegInf else PosInf
                 | NaN \<Rightarrow> NaN))"
| "fdiv_py (Finite a) PosInf = Some (Finite 0)"
| "fdiv_py (Finite a) NegInf = Some (Finite 0)"
| "fdiv_py x y = Some NaN"

text \<open>Comparison with a finite bound, and \<open>abs\<close>.\<close>

fun float_gt :: "pyfloat \<Rightarrow> rat \<Rightarrow> bool" where
  "float_gt (Finite q) c = (c < q)"
| "float_gt PosInf c = True"
| "float_gt NegInf c = False"
| "float_gt NaN c = False"

fun float_abs :: "pyfloat \<Rightarrow> pyfloat" where
  "float_abs (Finite q) = Finite \<bar>q\<bar>"
| "float_abs PosInf = PosInf"
| "float_abs NegInf = PosInf"
| "float_abs NaN = NaN"

subsection \<open>Integers, digits and decimal texts\<close>

definition digit_char :: "nat \<Rightarrow> char" where
  "digit_char n = ''0123456789'' ! (n mod 10)"

fun str_nat :: "nat \<Rightarrow> string" where
  "str_nat n = (if n < 10 then [digit_char n] else str_nat (n div 10) @ [digit_char (n mod 10)])"

declare str_nat.simps [simp del]

definition str_int :: "int \<Rightarrow> string" where
  "str_int i = (if i < 0 then CHR ''-'' # str_nat (nat (- i)) else str_nat (nat i))"

text \<open>\<open>x.is_integer()\<close> and \<open>int(x)\<close> (truncation towards zero) for a float \<open>x\<close>.\<close>

fun is_integer :: "pyfloat \<Rightarrow> bool" where
  "is_integer (Finite q) = (of_int \<lfloor>q\<rfloor> = q)"
| "is_integer _ = False"

definition trunc :: "rat \<Rightarrow> int" where
  "trunc q = (if 0 \<le> q then \<lfloor>q\<rfloor> else \<lceil>q\<rceil>)"

definition is_digit :: "char \<Rightarrow> bool" where
  "is_digit c = (c \<in> set ''0123456789'')"

definition is_alpha :: "char \<Rightarrow> bool" where
  "is_alpha c = (c \<in> set ''abcdefghijklmnopqrstuvwxyzABCDEFGHIJKLMNOPQRSTUVWXYZ'')"

definition digit_val :: "char \<Rightarrow> int" where
  "digit_val c = (case map_of (zip ''0123456789'' [0, 1, 2, 3, 4, 5, 6, 7, 8, 9]) c of
                    Some d \<Rightarrow> d | None \<Rightarrow> 0)"

definition int_of_digits :: "string \<Rightarrow> int" where
  "int_of_digits ds = foldl (\<lambda>a c. 10 * a + digit_val c) 0 ds"

text \<open>
  One attempt of the regular expression \<open>-?\d+\.?\d*\<close> at the head of a string: the
  matched text and what follows it. Every quantifier is greedy and nothing after
  \<open>\d+\<close> is mandatory, so the first attempt of the backtracking matcher is the match.
\<close>

definition match_number :: "string \<Rightarrow> (string \<times> string) option" where
  "match_number s =
     (let sign = (case s of c # _ \<Rightarrow> if c = CHR ''-'' then ''-'' else [] | [] \<Rightarrow> []);
          s1 = drop (length sign) s;
          ds = takeWhile is_digit s1;
          r1 = dropWhile is_digit s1
      in if ds = [] then None
         else (case r1 of
                 c # t \<Rightarrow>
                   if c = CHR ''.''
                   then Some (sign @ ds @ ''.'' @ takeWhile is_digit t, dropWhile is_digit t)
                   else Some (sign @ ds, r1)
               | [] \<Rightarrow> Some (sign @ ds, r1)))"

text \<open>
  \<open>re.findall(r'-?\d+\.?\d*', s)\<close>: matches from left to right, without overlap. The
  first argument counts the characters of the last match that are still to be passed over.
\<close>

fun findall_numbers_from :: "nat \<Rightarrow> string \<Rightarrow> string list" where
  "findall_numbers_from n [] = []"
| "findall_numbers_from n (c # cs) =
     (if 0 < n then findall_numbers_from (n - 1) cs
      else (case match_number (c # cs) of
              Some (m, r) \<Rightarrow> m # findall_numbers_from (length m - 1) cs
            | None \<Rightarrow> findall_numbers_from 0 cs))"

definition findall_numbers :: "string \<Rightarrow> string list" where
  "findall_numbers s = findall_numbers_from 0 s"

text \<open>
  The decimal value of a text \<open>m\<close> that \<open>-?\d+\.?\d*\<close> matched, and \<open>float(m)\<close>: the
  binary64 value nearest to it.
\<close>

definition decimal_of_match :: "string \<Rightarrow> rat" where
  "decimal_of_match m =
     (let neg = (case m of c # _ \<Rightarrow> c = CHR ''-'' | [] \<Rightarrow> False);
          t = (if neg then tl m else m);
          ip = takeWhile is_digit t;
          fp = (case dropWhile is_digit t of _ # f \<Rightarrow> f | [] \<Rightarrow> []);
          v = of_int (int_of_digits ip) + of_int (int_of_digits fp) / 10 ^ length fp
      in if neg then - v else v)"

definition float_of_match :: "string \<Rightarrow> pyfloat" where
  "float_of_match m = to_float (decimal_of_match m)"

section \<open>Data model\<close>

text \<open>
  \<open>tool_output\<close> is declared \<open>Optional[Any]\<close>: an integer, a float, a string, or any
  other object, of which the code only observes the truth value and the \<open>str\<close> rendering.
  The fields \<open>tool_input\<close> and \<open>timestamp\<close> of a step are written and never read by
  the functions below; they are left out.
\<close>

datatype tool_value = VInt int | VFloat pyfloat | VStr string | VOther bool string

datatype ProblemType =
  SPATIAL_REASONING | MATHEMATICAL | LOGICAL | SEQUENCE | OPTIMIZATION
  | LATERAL_THINKING | CLASSIC_RIDDLE

datatype ReasoningStrategy =
  DIRECT_CALCULATION | STEP_BY_STEP_LOGIC | PATTERN_RECOGNITION
  | CONSTRAINT_SATISFACTION | SPATIAL_VISUALIZATION | CREATIVE_THINKING

record ReasoningStep =
  step_number :: nat
  action :: string
  thought :: string
  tool_used :: "string option"
  tool_output :: "tool_value option"
  result :: "string option"
  verified :: bool
  confidence :: rat

record ReasoningPlan =
  problem_type :: ProblemType
  strategy :: ReasoningStrategy
  sub_problems :: "string list"
  required_tools :: "string list"
  constraints :: "string list"
  expected_answer_format :: string
  confidence_threshold :: rat

record ReasoningChain =
  problem :: string
  plan :: ReasoningPlan
  steps :: "ReasoningStep list"
  final_answer :: "string option"
  overall_confidence :: rat

record VerificationResult =
  is_valid :: bool
  v_confidence :: rat
  issues :: "string list"
  suggestions :: "string list"

text \<open>Python truth values and \<open>str\<close> of a tool output.\<close>

fun truthy :: "tool_value \<Rightarrow> bool" where
  "truthy (VInt i) = (i \<noteq> 0)"
| "truthy (VFloat f) = (f \<noteq> Finite 0)"
| "truthy (VStr s) = (s \<noteq> [])"
| "truthy (VOther b r) = b"

fun str_value :: "(pyfloat \<Rightarrow> string) \<Rightarrow> tool_value \<Rightarrow> string" where
  "str_value fstr (VInt i) = str_int i"
| "str_value fstr (VFloat f) = fstr f"
| "str_value fstr (VStr s) = s"
| "str_value fstr (VOther b r) = r"

text \<open>
  The advisory oracle (the Mistral tool), when there is one: \<open>enhance_thought\<close> and the
  \<open>analysis\<close> text of \<open>interpret_answer_options\<close>. \<open>None\<close> is a call that raised.
\<close>

record mistral_tool =
  enhance_thought :: "string \<Rightarrow> string \<Rightarrow> string option"
  interpret_answer_options :: "string \<Rightarrow> string list \<Rightarrow> string option"

section \<open>Answer synthesis: \<open>ReasonerAgent._determine_final_answer\<close>\<close>

definition status_strings :: "string list" where
  "status_strings =
     [''processed'', ''calculated'', ''verified'', ''optimal_solution'',
      ''conclusion_reached'', ''equation_ready'', ''pattern_identified'',
      ''facts_extracted'', ''goal_identified'', ''logic_applied'',
      ''constraints_identified'', ''approaches_listed'', ''evaluated'',
      ''facts'', ''proven'', ''3d_shape'', ''cube'', ''sphere'', ''cylinder'']"

text \<open>An option list that is \<open>None\<close> or empty is falsy: no loop over the options runs.\<close>

definition opts_of :: "string list option \<Rightarrow> string list" where
  "opts_of options = (case options of None \<Rightarrow> [] | Some opts \<Rightarrow> opts)"

text \<open>The answer taken from a numeric tool output.\<close>

definition answer_str :: "(pyfloat \<Rightarrow> string) \<Rightarrow> tool_value \<Rightarrow> string" where
  "answer_str fstr v =
     (case v of
        VFloat f \<Rightarrow> (case f of
                       Finite q \<Rightarrow> if is_integer f then str_int (trunc q) else fstr f
                     | _ \<Rightarrow> fstr f)
      | _ \<Rightarrow> str_value fstr v)"

definition numeric_answer :: "(pyfloat \<Rightarrow> string) \<Rightarrow> tool_value \<Rightarrow> string list option \<Rightarrow> string" where
  "numeric_answer fstr v options =
     (let a = answer_str fstr v
      in case first_such (\<lambda>opt. a = opt \<or> str_in a opt \<or> startswith opt a) (opts_of options) of
           Some opt \<Rightarrow> opt
         | None \<Rightarrow> a)"

definition string_answer :: "string \<Rightarrow> string list option \<Rightarrow> string" where
  "string_answer s options =
     (case first_such (\<lambda>opt. str_in (lower s) (lower opt) \<or> str_in (lower opt) (lower s))
             (opts_of options) of
        Some opt \<Rightarrow> opt
      | None \<Rightarrow> s)"

text \<open>First priority: the loop over the steps, most recent first, looking at tool outputs.\<close>

fun scan_tool_outputs ::
  "(pyfloat \<Rightarrow> string) \<Rightarrow> string list option \<Rightarrow> ReasoningStep list \<Rightarrow> string option" where
  "scan_tool_outputs fstr options [] = None"
| "scan_tool_outputs fstr options (step # rest) =
     (case tool_output step of
        None \<Rightarrow> scan_tool_outputs fstr options rest
      | Some (VInt i) \<Rightarrow> Some (numeric_answer fstr (VInt i) options)
      | Some (VFloat f) \<Rightarrow> Some (numeric_answer fstr (VFloat f) options)
      | Some (VStr s) \<Rightarrow>
          if s \<notin> set status_strings then Some (string_answer s options)
          else scan_tool_outputs fstr options rest
      | Some (VOther b r) \<Rightarrow> scan_tool_outputs fstr options rest)"

text \<open>Second priority: the loop over the steps, most recent first, looking at results.\<close>

definition is_tracking :: "string \<Rightarrow> bool" where
  "is_tracking r = (CHR '','' \<in> set r \<and> \<not> list_ex is_alpha (filter (\<lambda>c. c \<noteq> CHR '','') r))"

fun scan_results :: "string list option \<Rightarrow> ReasoningStep list \<Rightarrow> string option" where
  "scan_results options [] = None"
| "scan_results options (step # rest) =
     (case result step of
        None \<Rightarrow> scan_results options rest
      | Some r \<Rightarrow>
          if r \<noteq> [] \<and> r \<notin> set status_strings then
            if is_tracking r then scan_results options rest
            else (case first_such
                         (\<lambda>opt. str_in (strip (lower r)) (lower opt)
                                \<or> str_in (lower opt) (strip (lower r)))
                         (opts_of options) of
                    Some opt \<Rightarrow> Some opt
                  | None \<Rightarrow>
                      if 2 < length r \<and> r \<notin> set status_strings then Some r
                      else scan_results options rest)
          else scan_results options rest)"

text \<open>Third priority: the oracle's analysis names \<open>option i\<close> or contains an option.\<close>

fun scan_analysis :: "string \<Rightarrow> nat \<Rightarrow> string list \<Rightarrow> string option" where
  "scan_analysis analysis i [] = None"
| "scan_analysis analysis i (opt # opts) =
     (if str_in (''option '' @ str_nat i) (lower analysis) \<or> str_in (lower opt) (lower analysis)
      then Some opt
      else scan_analysis analysis (i + 1) opts)"

definition ask_oracle :: "mistral_tool option \<Rightarrow> string \<Rightarrow> string list option \<Rightarrow> string option" where
  "ask_oracle mistral prob options =
     (case mistral of
        None \<Rightarrow> None
      | Some m \<Rightarrow>
          if opts_of options = [] then None
          else (case interpret_answer_options m prob (opts_of options) of
                  None \<Rightarrow> None
                | Some analysis \<Rightarrow> scan_analysis analysis 1 (opts_of options)))"

definition determine_final_answer ::
  "(pyfloat \<Rightarrow> string) \<Rightarrow> mistral_tool option \<Rightarrow> ReasoningChain \<Rightarrow> string list option \<Rightarrow> string" where
  "determine_final_answer fstr mistral chain options =
     (case scan_tool_outputs fstr options (rev (steps chain)) of
        Some a \<Rightarrow> a
      | None \<Rightarrow>
     (case scan_results options (rev (steps chain)) of
        Some a \<Rightarrow> a
      | None \<Rightarrow>
     (case ask_oracle mistral (problem chain) options of
        Some a \<Rightarrow> a
      | None \<Rightarrow>
     (case opts_of options of
        opt # _ \<Rightarrow> opt
      | [] \<Rightarrow> unable))))"

section \<open>Self-correction: \<open>SelfCorrector\<close>\<close>

definition validate_status_strings :: "string list" where
  "validate_status_strings =
     [''processed'', ''calculated'', ''verified'', ''identified'',
      ''optimal_solution'', ''conclusion_reached'', ''equation_ready'',
      ''options_evaluated'', ''pattern_identified'']"

definition quote :: string where
  "quote = [CHR 0x27]"

text \<open>
  The number check of \<open>validate_result\<close>: the first match of \<open>-?\d+\.?\d*\<close> in the
  result, read as a float, against the two bounds.
\<close>

definition number_check ::
  "(pyfloat \<Rightarrow> string) \<Rightarrow> string \<Rightarrow> string \<Rightarrow> bool \<times> string option" where
  "number_check fstr res prob =
     (case findall_numbers res of
        [] \<Rightarrow> (True, None)
      | m # _ \<Rightarrow>
          (let num = float_of_match m
           in if float_gt (float_abs num) 1000000
              then (False, Some (''Unreasonably large number: '' @ fstr num))
              else if (str_in ''percentage'' (lower prob) \<or> str_in ''%'' prob)
                      \<and> float_gt num 100
              then (False, Some (''Percentage > 100%: '' @ fstr num))
              else (True, None)))"

definition validate_result ::
  "(pyfloat \<Rightarrow> string) \<Rightarrow> string \<Rightarrow> string \<Rightarrow> string list option \<Rightarrow> bool \<times> string option" where
  "validate_result fstr res prob options =
     (if res = [] then (False, Some ''Empty result'')
      else if strip (lower res) \<in> set validate_status_strings
      then (False, Some (''Status string '' @ quote @ res @ quote @ '' is not a valid answer''))
      else
        (case first_such (\<lambda>opt. strip res = strip opt) (opts_of options) of
           Some opt \<Rightarrow> (True, None)
         | None \<Rightarrow>
        (case first_such (\<lambda>opt. str_in (lower res) (lower opt) \<or> str_in (lower opt) (lower res))
                (opts_of options) of
           Some opt \<Rightarrow> (True, Some (''Consider using full option: '' @ quote @ opt @ quote))
         | None \<Rightarrow> number_check fstr res prob)))"

text \<open>The two loops of \<open>suggest_correction\<close>, over the steps most recent first.\<close>

fun suggest_from_outputs ::
  "(pyfloat \<Rightarrow> string) \<Rightarrow> string list option \<Rightarrow> ReasoningStep list \<Rightarrow> string option" where
  "suggest_from_outputs fstr options [] = None"
| "suggest_from_outputs fstr options (step # rest) =
     (case tool_output step of
        None \<Rightarrow> suggest_from_outputs fstr options rest
      | Some v \<Rightarrow>
          if \<not> truthy v then suggest_from_outputs fstr options rest
          else if (case v of VStr s \<Rightarrow> lower s \<in> set [''processed'', ''calculated'', ''verified'']
                           | _ \<Rightarrow> False)
          then suggest_from_outputs fstr options rest
          else (case first_such
                       (\<lambda>opt. str_in (lower (str_value fstr v)) (lower opt)
                              \<or> str_in (lower opt) (lower (str_value fstr v)))
                       (opts_of options) of
                  Some opt \<Rightarrow> Some opt
                | None \<Rightarrow> Some (str_value fstr v)))"

fun suggest_from_results :: "string list option \<Rightarrow> ReasoningStep list \<Rightarrow> string option" where
  "suggest_from_results options [] = None"
| "suggest_from_results options (step # rest) =
     (case result step of
        None \<Rightarrow> suggest_from_results options rest
      | Some r \<Rightarrow>
          if r \<noteq> [] \<and> lower r \<notin> set [''processed'', ''calculated'', ''verified'', ''identified'']
          then (case first_such (\<lambda>opt. str_in r opt \<or> str_in opt r) (opts_of options) of
                  Some opt \<Rightarrow> Some opt
                | None \<Rightarrow> Some r)
          else suggest_from_results options rest)"

definition suggest_correction ::
  "(pyfloat \<Rightarrow> string) \<Rightarrow> string \<Rightarrow> string \<Rightarrow> ReasoningStep list \<Rightarrow> string list option
   \<Rightarrow> string option" where
  "suggest_correction fstr res prob reasoning_steps options =
     (case suggest_from_outputs fstr options (rev reasoning_steps) of
        Some a \<Rightarrow> Some a
      | None \<Rightarrow>
     (case suggest_from_results options (rev reasoning_steps) of
        Some a \<Rightarrow> Some a
      | None \<Rightarrow>
     (case opts_of options of
        opt # _ \<Rightarrow> Some opt
      | [] \<Rightarrow> None)))"

definition reliable_tools :: "string list" where
  "reliable_tools = [''calculator'', ''symbolic_solver'', ''geometry_calculator'',
                     ''constraint_solver'', ''pattern_analyzer'']"

definition tools_used :: "ReasoningStep list \<Rightarrow> string list" where
  "tools_used reasoning_steps =
     concat (map (\<lambda>step. case tool_used step of
                            None \<Rightarrow> [] | Some t \<Rightarrow> if t = [] then [] else [t])
                 reasoning_steps)"

definition clamp_confidence :: "rat \<Rightarrow> rat" where
  "clamp_confidence c = max (1 / 10) (min (19 / 20) c)"

text \<open>
  \<open>verification_result\<close> is an optional dictionary; \<open>Some b\<close> is a dictionary whose
  entry \<open>is_valid\<close> is truthy exactly when \<open>b\<close> holds. The sum of the factors and the
  blend are computed exactly here; the result is clamped as in the source, and what is
  proved of it below is its range.
\<close>

definition calculate_confidence ::
  "(pyfloat \<Rightarrow> string) \<Rightarrow> string \<Rightarrow> string \<Rightarrow> ReasoningStep list \<Rightarrow> bool option \<Rightarrow> rat" where
  "calculate_confidence fstr res prob reasoning_steps verification_result =
     (let c0 = 1 / 2;
          c1 = (if fst (validate_result fstr res prob None) then c0 + 2 / 10 else c0 - 1 / 10);
          c2 = c1 + (1 / 10) * of_nat (length (filter (\<lambda>t. t \<in> set (tools_used reasoning_steps))
                                                    reliable_tools));
          c3 = (if verification_result = Some True then c2 + 2 / 10 else c2);
          step_confidences = filter (\<lambda>c. 0 < c) (map confidence reasoning_steps);
          c4 = (if step_confidences \<noteq> []
                then (c3 + sum_list step_confidences / of_nat (length step_confidences)) / 2
                else c3)
      in clamp_confidence c4)"

text \<open>
  The separator that the source file holds between the message and the suggestion, as its
  bytes.
\<close>

definition arrow :: string where
  "arrow = [CHR 0xC3, CHR 0xA2, CHR 0xE2, CHR 0x80, CHR 0xA0, CHR 0xE2, CHR 0x80, CHR 0x99]"

definition str_opt :: "string option \<Rightarrow> string" where
  "str_opt m = (case m of None \<Rightarrow> ''None'' | Some t \<Rightarrow> t)"

definition self_correct ::
  "(pyfloat \<Rightarrow> string) \<Rightarrow> string \<Rightarrow> string \<Rightarrow> ReasoningStep list \<Rightarrow> string list option
   \<Rightarrow> string \<times> string \<times> rat" where
  "self_correct fstr preliminary_answer prob reasoning_steps options =
     (let (valid, validation_msg) = validate_result fstr preliminary_answer prob options;
          (final, correction_reason) =
            (if \<not> valid then
               (case suggest_correction fstr preliminary_answer prob reasoning_steps options of
                  Some suggested \<Rightarrow>
                    if suggested \<noteq> [] \<and> suggested \<noteq> preliminary_answer
                    then (suggested, ''Corrected: '' @ str_opt validation_msg @ '' '' @ arrow
                                     @ '' Using '' @ suggested)
                    else (preliminary_answer, ''Warning: '' @ str_opt validation_msg)
                | None \<Rightarrow> (preliminary_answer, ''Warning: '' @ str_opt validation_msg))
             else (preliminary_answer, []))
      in (final, correction_reason,
          calculate_confidence fstr final prob reasoning_steps None))"

section \<open>Step execution: \<open>ReasonerAgent.execute_plan\<close>\<close>

text \<open>
  A step handler mutates the step it is given and may raise; \<open>Raised e s\<close> is a raise
  with message \<open>e\<close> that leaves the step as \<open>s\<close>. A handler sees the steps recorded so
  far (the reasoner's current chain), the step, the problem, the sub-problem and, for
  three of the six handlers, the options. The six handlers are parameters of the executor.
\<close>

datatype handler_result = Returned ReasoningStep | Raised string ReasoningStep

record handlers =
  h_sequence :: "ReasoningStep list \<Rightarrow> ReasoningStep \<Rightarrow> string \<Rightarrow> string \<Rightarrow> handler_result"
  h_spatial :: "ReasoningStep list \<Rightarrow> ReasoningStep \<Rightarrow> string \<Rightarrow> string \<Rightarrow> handler_result"
  h_mathematical :: "ReasoningStep list \<Rightarrow> ReasoningStep \<Rightarrow> string \<Rightarrow> string \<Rightarrow> handler_result"
  h_optimization ::
    "ReasoningStep list \<Rightarrow> ReasoningStep \<Rightarrow> string \<Rightarrow> string \<Rightarrow> string list option \<Rightarrow> handler_result"
  h_logical ::
    "ReasoningStep list \<Rightarrow> ReasoningStep \<Rightarrow> string \<Rightarrow> string \<Rightarrow> string list option \<Rightarrow> handler_result"
  h_general ::
    "ReasoningStep list \<Rightarrow> ReasoningStep \<Rightarrow> string \<Rightarrow> string \<Rightarrow> string list option \<Rightarrow> handler_result"

fun type_value :: "ProblemType \<Rightarrow> string" where
  "type_value SPATIAL_REASONING = ''spatial_reasoning''"
| "type_value MATHEMATICAL = ''mathematical''"
| "type_value LOGICAL = ''logical''"
| "type_value SEQUENCE = ''sequence''"
| "type_value OPTIMIZATION = ''optimization''"
| "type_value LATERAL_THINKING = ''lateral_thinking''"
| "type_value CLASSIC_RIDDLE = ''classic_riddle''"

fun route ::
  "handlers \<Rightarrow> ProblemType \<Rightarrow> ReasoningStep list \<Rightarrow> ReasoningStep \<Rightarrow> string \<Rightarrow> string
   \<Rightarrow> string list option \<Rightarrow> handler_result" where
  "route hs SEQUENCE prev step full_problem sub_problem options =
     h_sequence hs prev step full_problem sub_problem"
| "route hs SPATIAL_REASONING prev step full_problem sub_problem options =
     h_spatial hs prev step full_problem sub_problem"
| "route hs MATHEMATICAL prev step full_problem sub_problem options =
     h_mathematical hs prev step full_problem sub_problem"
| "route hs OPTIMIZATION prev step full_problem sub_problem options =
     h_optimization hs prev step full_problem sub_problem options"
| "route hs LOGICAL prev step full_problem sub_problem options =
     h_logical hs prev step full_problem sub_problem options"
| "route hs _ prev step full_problem sub_problem options =
     h_general hs prev step full_problem sub_problem options"

definition new_step :: "nat \<Rightarrow> string \<Rightarrow> ReasoningStep" where
  "new_step n sub_problem =
     \<lparr>step_number = n, action = sub_problem, thought = [], tool_used = None,
      tool_output = None, result = None, verified = False, confidence = 0\<rparr>"

text \<open>The step as the handler receives it: fresh, with the oracle's thought if there is one.\<close>

definition prepared_step ::
  "mistral_tool option \<Rightarrow> nat \<Rightarrow> string \<Rightarrow> string \<Rightarrow> ReasoningPlan \<Rightarrow> ReasoningStep" where
  "prepared_step mistral n sub_problem full_problem pl =
     (let step0 = new_step n sub_problem;
          context = ''Problem: '' @ take 200 full_problem @ ''... Type: ''
                    @ type_value (problem_type pl)
      in case mistral of
           None \<Rightarrow> step0
         | Some m \<Rightarrow> (case enhance_thought m sub_problem context of
                       None \<Rightarrow> step0
                     | Some t \<Rightarrow> step0\<lparr>thought := t\<rparr>))"

definition execute_sub_problem ::
  "handlers \<Rightarrow> mistral_tool option \<Rightarrow> ReasoningStep list \<Rightarrow> nat \<Rightarrow> string \<Rightarrow> string
   \<Rightarrow> ReasoningPlan \<Rightarrow> string list option \<Rightarrow> ReasoningStep" where
  "execute_sub_problem hs mistral prev n sub_problem full_problem pl options =
     (case route hs (problem_type pl) prev (prepared_step mistral n sub_problem full_problem pl)
             full_problem sub_problem options of
        Returned s \<Rightarrow> s\<lparr>confidence := 8 / 10\<rparr>
      | Raised e s \<Rightarrow> s\<lparr>thought := ''Error executing step: '' @ e, confidence := 1 / 10\<rparr>)"

text \<open>The loop over the sub-problems; \<open>acc\<close> is the chain's step list, \<open>n\<close> the step number.\<close>

fun run_sub_problems ::
  "handlers \<Rightarrow> mistral_tool option \<Rightarrow> string \<Rightarrow> ReasoningPlan \<Rightarrow> string list option
   \<Rightarrow> nat \<Rightarrow> string list \<Rightarrow> ReasoningStep list \<Rightarrow> ReasoningStep list" where
  "run_sub_problems hs mistral full_problem pl options n [] acc = acc"
| "run_sub_problems hs mistral full_problem pl options n (sp # sps) acc =
     run_sub_problems hs mistral full_problem pl options (n + 1) sps
       (acc @ [execute_sub_problem hs mistral acc n sp full_problem pl options])"

definition executed_steps ::
  "handlers \<Rightarrow> mistral_tool option \<Rightarrow> string \<Rightarrow> ReasoningPlan \<Rightarrow> string list option
   \<Rightarrow> ReasoningStep list" where
  "executed_steps hs mistral full_problem pl options =
     run_sub_problems hs mistral full_problem pl options 1 (sub_problems pl) []"

definition preliminary_of ::
  "(pyfloat \<Rightarrow> string) \<Rightarrow> handlers \<Rightarrow> mistral_tool option \<Rightarrow> string \<Rightarrow> ReasoningPlan
   \<Rightarrow> string list option \<Rightarrow> string" where
  "preliminary_of fstr hs mistral full_problem pl options =
     determine_final_answer fstr mistral
       \<lparr>problem = full_problem, plan = pl,
        steps = executed_steps hs mistral full_problem pl options,
        final_answer = None, overall_confidence = 0\<rparr> options"

definition corrected_of ::
  "(pyfloat \<Rightarrow> string) \<Rightarrow> handlers \<Rightarrow> mistral_tool option \<Rightarrow> string \<Rightarrow> ReasoningPlan
   \<Rightarrow> string list option \<Rightarrow> string \<times> string \<times> rat" where
  "corrected_of fstr hs mistral full_problem pl options =
     self_correct fstr (preliminary_of fstr hs mistral full_problem pl options) full_problem
       (executed_steps hs mistral full_problem pl options) options"

definition execute_plan ::
  "(pyfloat \<Rightarrow> string) \<Rightarrow> handlers \<Rightarrow> mistral_tool option \<Rightarrow> string \<Rightarrow> ReasoningPlan
   \<Rightarrow> string list option \<Rightarrow> ReasoningChain" where
  "execute_plan fstr hs mistral full_problem pl options =
     (let steps1 = executed_steps hs mistral full_problem pl options;
          preliminary_answer = preliminary_of fstr hs mistral full_problem pl options;
          (corrected_answer, correction_reason, conf) =
             corrected_of fstr hs mistral full_problem pl options;
          steps2 = (if corrected_answer \<noteq> preliminary_answer
                    then steps1 @
                      [\<lparr>step_number = length steps1 + 1, action = ''Self-correction'',
                        thought = correction_reason, tool_used = Some ''self_corrector'',
                        tool_output = None, result = Some corrected_answer,
                        verified = True, confidence = conf\<rparr>]
                    else steps1)
      in \<lparr>problem = full_problem, plan = pl, steps = steps2,
          final_answer = Some corrected_answer, overall_confidence = conf\<rparr>)"

section \<open>Verification: \<open>VerifierAgent\<close>\<close>

definition nonfinite_output :: "tool_value option \<Rightarrow> bool" where
  "nonfinite_output t =
     (case t of
        Some (VFloat f) \<Rightarrow> truthy (VFloat f) \<and> (f = NaN \<or> f = PosInf \<or> f = NegInf)
      | _ \<Rightarrow> False)"

definition falsy_str :: "string option \<Rightarrow> bool" where
  "falsy_str r = (r = None \<or> r = Some [])"

definition falsy_out :: "tool_value option \<Rightarrow> bool" where
  "falsy_out t = (case t of None \<Rightarrow> True | Some v \<Rightarrow> \<not> truthy v)"

text \<open>
  The verifier's confidences are computed in binary64: each decimal literal is its nearest
  float and each operation rounds.
\<close>

definition verify_step :: "ReasoningStep \<Rightarrow> VerificationResult" where
  "verify_step step =
     (let no_result = (falsy_str (result step) \<and> falsy_out (tool_output step));
          issues1 = (if no_result then [''Step produced no result''] else []);
          c1 = (if no_result then r64 (3 / 10) else r64 (8 / 10));
          no_tool = (str_in ''calculate'' (lower (action step)) \<and> falsy_str (tool_used step));
          suggestions1 =
            (if no_tool then [''Consider using calculator tool for calculations''] else []);
          c2 = (if no_tool then fsub c1 (r64 (1 / 10)) else c1);
          bad = nonfinite_output (tool_output step);
          issues2 = issues1 @ (if bad then [''Tool output is NaN or infinite''] else []);
          c3 = (if bad then r64 (2 / 10) else c2);
          short = (length (thought step) < 10);
          suggestions2 = suggestions1 @ (if short then [''Add more detailed reasoning''] else []);
          c4 = (if short then fsub c3 (r64 (1 / 10)) else c3)
      in \<lparr>is_valid = (issues2 = [] \<and> 1 / 2 < c4),
          v_confidence = max 0 (min 1 c4),
          issues = issues2, suggestions = suggestions2\<rparr>)"

definition steps_connected :: "ReasoningStep \<Rightarrow> ReasoningStep \<Rightarrow> bool" where
  "steps_connected step1 step2 =
     (case result step1 of
        None \<Rightarrow> True
      | Some r \<Rightarrow> if r \<noteq> [] \<and> thought step2 \<noteq> [] then str_in r (lower (thought step2))
                  else True)"

text \<open>The loop over adjacent pairs; \<open>i\<close> is the number of the first step of the pair.\<close>

fun flow_suggestions ::
  "(ReasoningStep \<Rightarrow> ReasoningStep \<Rightarrow> bool) \<Rightarrow> nat \<Rightarrow> ReasoningStep list \<Rightarrow> string list" where
  "flow_suggestions conn i (s1 # s2 # rest) =
     (if \<not> conn s1 s2
      then [''Steps '' @ str_nat i @ '' and '' @ str_nat (i + 1) @ '' may not be well connected'']
      else []) @ flow_suggestions conn (i + 1) (s2 # rest)"
| "flow_suggestions conn i _ = []"

definition mark_step :: "ReasoningStep \<Rightarrow> ReasoningStep" where
  "mark_step step =
     step\<lparr>verified := is_valid (verify_step step), confidence := v_confidence (verify_step step)\<rparr>"

definition no_final_answer :: "ReasoningChain \<Rightarrow> bool" where
  "no_final_answer chain = (falsy_str (final_answer chain) \<or> final_answer chain = Some unable)"

text \<open>
  \<open>verify_chain_with conn\<close> is the source's \<open>verify_chain\<close> with the connectivity test
  as a parameter; the source's function is its instance at \<open>steps_connected\<close>. The
  result is the verification result and the chain with its steps marked.
\<close>

definition verify_chain_with ::
  "(ReasoningStep \<Rightarrow> ReasoningStep \<Rightarrow> bool) \<Rightarrow> ReasoningChain
   \<Rightarrow> VerificationResult \<times> ReasoningChain" where
  "verify_chain_with conn chain =
     (let results = map verify_step (steps chain);
          marked = map mark_step (steps chain);
          all_issues =
            concat (map issues results)
            @ (if length (steps chain) < length (sub_problems (plan chain))
               then [''Not all sub-problems were addressed''] else [])
            @ (if no_final_answer chain then [''No valid final answer determined''] else []);
          all_suggestions =
            concat (map suggestions results) @ flow_suggestions conn 1 marked;
          step_confidences =
            map v_confidence results @ (if no_final_answer chain then [0] else []);
          mean = (if step_confidences \<noteq> []
                  then fdiv (fsum step_confidences) (r64 (of_nat (length step_confidences)))
                  else 1 / 2);
          overall = (if all_issues \<noteq> [] then fmul mean (r64 (7 / 10)) else mean)
      in (\<lparr>is_valid = (all_issues = [] \<and> r64 (6 / 10) < overall), v_confidence = overall,
           issues = all_issues, suggestions = all_suggestions\<rparr>,
          chain\<lparr>steps := marked\<rparr>))"

definition verify_chain :: "ReasoningChain \<Rightarrow> VerificationResult \<times> ReasoningChain" where
  "verify_chain chain = verify_chain_with steps_connected chain"

text \<open>
  The confidence aggregator, with its weighted sum computed exactly; nothing below depends
  on its value.
\<close>

definition calculate_confidence_score :: "ReasoningChain \<Rightarrow> VerificationResult \<Rightarrow> rat" where
  "calculate_confidence_score chain verification =
     (let plan_completion =
            (if sub_problems (plan chain) \<noteq> []
             then of_nat (length (steps chain)) / of_nat (length (sub_problems (plan chain)))
             else 1);
          steps_with_tools = length (filter (\<lambda>s. \<not> falsy_str (tool_used s)) (steps chain));
          expected_tools =
            length (filter (\<lambda>t. t \<noteq> ''reasoning_engine'') (required_tools (plan chain)));
          tool_usage = (if 0 < expected_tools
                        then of_nat steps_with_tools / of_nat expected_tools else 8 / 10);
          critical = list_ex (\<lambda>issue. str_in ''error'' (lower issue)) (issues verification);
          c = (4 / 10) * v_confidence verification + (2 / 10) * min 1 plan_completion
              + (2 / 10) * min 1 tool_usage + (2 / 10) * (if critical then 3 / 10 else 1)
      in max 0 (min 1 c))"

section \<open>The work-rate solver and the mathematical handler\<close>

text \<open>
  One attempt of \<open>(\d+(?:\.\d+)?)\s*hour\<close> at the head of a string: the text of group 1
  and the length of the whole match. After the greedy first attempt every alternative of
  the backtracking matcher meets a digit, a dot or a space where \<open>hour\<close> must start, so
  the first attempt decides.
\<close>

definition match_hours :: "string \<Rightarrow> (string \<times> nat) option" where
  "match_hours s =
     (let ds = takeWhile is_digit s;
          r = dropWhile is_digit s;
          frac = (case r of
                    c # t \<Rightarrow> if c = CHR ''.'' \<and> takeWhile is_digit t \<noteq> []
                             then CHR ''.'' # takeWhile is_digit t else []
                  | [] \<Rightarrow> []);
          r2 = drop (length frac) r;
          r3 = dropWhile is_space r2
      in if ds \<noteq> [] \<and> prefix ''hour'' r3
         then Some (ds @ frac, length s - length r3 + 4)
         else None)"

fun findall_hours_from :: "nat \<Rightarrow> string \<Rightarrow> string list" where
  "findall_hours_from n [] = []"
| "findall_hours_from n (c # cs) =
     (if 0 < n then findall_hours_from (n - 1) cs
      else (case match_hours (c # cs) of
              Some (g, len) \<Rightarrow> g # findall_hours_from (len - 1) cs
            | None \<Rightarrow> findall_hours_from 0 cs))"

definition findall_hours :: "string \<Rightarrow> string list" where
  "findall_hours s = findall_hours_from 0 s"

text \<open>
  The rates \<open>1/t\<close> in order, \<open>None\<close> as soon as one division raises, and their sum from
  left to right starting at the integer 0.
\<close>

fun rates :: "pyfloat list \<Rightarrow> pyfloat list option" where
  "rates [] = Some []"
| "rates (t # ts) =
     (case fdiv_py (Finite 1) t of
        None \<Rightarrow> None
      | Some r \<Rightarrow> (case rates ts of None \<Rightarrow> None | Some rs \<Rightarrow> Some (r # rs)))"

definition sum_py :: "pyfloat list \<Rightarrow> pyfloat" where
  "sum_py xs = foldl fadd_py (Finite 0) xs"

text \<open>
  \<open>EnhancedSolvers.solve_work_rate_problem\<close>, in binary64. \<open>Inl\<close> is a raise that the
  function does not catch: \<open>int\<close> of an infinite time is an \<open>OverflowError\<close>, and the
  \<open>try\<close> block catches \<open>ValueError\<close> (\<open>int\<close> of a NaN) and \<open>ZeroDivisionError\<close>
  only, which end in \<open>return None\<close>.
\<close>

definition format_time :: "rat \<Rightarrow> string" where
  "format_time combined_time =
     (let hours = trunc combined_time;
          minutes = trunc (fmul (fsub combined_time (of_int hours)) 60)
      in if minutes = 0 then str_int hours @ '' hours''
         else if hours = 0 then str_int minutes @ '' minutes''
         else str_int hours @ '' hours and '' @ str_int minutes @ '' minutes'')"

definition solve_work_rate_problem :: "string \<Rightarrow> string + string option" where
  "solve_work_rate_problem prob =
     (let problem_lower = lower prob
      in if \<not> list_ex (\<lambda>word. str_in word problem_lower)
                  [''hour'', ''together'', ''work'', ''complete'']
         then Inr None
         else
           (let times = map float_of_match (findall_hours problem_lower)
            in if 2 \<le> length times then
                 (case rates times of
                    None \<Rightarrow> Inr None
                  | Some rs \<Rightarrow>
                      (case fdiv_py (Finite 1) (sum_py rs) of
                         None \<Rightarrow> Inr None
                       | Some (Finite combined_time) \<Rightarrow> Inr (Some (format_time combined_time))
                       | Some NaN \<Rightarrow> Inr None
                       | Some _ \<Rightarrow> Inl ''cannot convert float infinity to integer''))
               else Inr None))"

text \<open>\<open>','.join(xs)\<close> and the \<open>str\<close> of a list of strings of digits.\<close>

fun join :: "string \<Rightarrow> string list \<Rightarrow> string" where
  "join sep [] = []"
| "join sep [x] = x"
| "join sep (x # y # xs) = x @ sep @ join sep (y # xs)"

definition str_list :: "string list \<Rightarrow> string" where
  "str_list xs = ''['' @ join '', '' (map (\<lambda>x. quote @ x @ quote) xs) @ '']''"

text \<open>
  \<open>ReasonerAgent._handle_mathematical_step\<close>. \<open>calc\<close> is \<open>Calculator.evaluate\<close>, which
  hands the expression to an external library; \<open>None\<close> is its \<open>ToolExecutionError\<close>.
  \<open>lower_cascade\<close> stands for the solvers that the equation branch tries after the
  work-rate solver has returned nothing.
\<close>

definition handle_mathematical_step ::
  "(pyfloat \<Rightarrow> string) \<Rightarrow> (string \<Rightarrow> tool_value option)
   \<Rightarrow> (ReasoningStep \<Rightarrow> string \<Rightarrow> handler_result)
   \<Rightarrow> ReasoningStep list \<Rightarrow> ReasoningStep \<Rightarrow> string \<Rightarrow> string \<Rightarrow> handler_result" where
  "handle_mathematical_step fstr calc lower_cascade prev step prob sub_problem =
     (if str_in ''extract'' (lower sub_problem) then
        Returned (step\<lparr>thought := ''Extracted values: '' @ str_list (findall_numbers prob),
                       result := Some (join '','' (findall_numbers prob))\<rparr>)
      else if str_in ''equation'' (lower sub_problem) \<or> str_in ''identify'' (lower sub_problem)
      then
        (case solve_work_rate_problem prob of
           Inl e \<Rightarrow> Raised e step
         | Inr (Some work_rate_result) \<Rightarrow>
             Returned (step\<lparr>tool_output := Some (VStr work_rate_result),
                            result := Some work_rate_result,
                            thought := ''Enhanced work rate calculation: '' @ work_rate_result,
                            tool_used := Some ''enhanced_work_rate''\<rparr>)
         | Inr None \<Rightarrow> lower_cascade step prob)
      else if str_in ''calculate'' (lower sub_problem) \<or> str_in ''perform'' (lower sub_problem)
      then
        (case (case findall_numbers prob of
                 n1 # n2 # _ \<Rightarrow> calc (n1 @ ''*'' @ n2)
               | _ \<Rightarrow> None) of
           Some v \<Rightarrow>
             Returned (step\<lparr>tool_output := Some v, result := Some (str_value fstr v),
                            thought := ''Calculated: '' @ str_value fstr v,
                            tool_used := Some ''calculator''\<rparr>)
         | None \<Rightarrow>
             Returned (step\<lparr>thought := ''Performing calculations'',
                            tool_used := Some ''calculator'', result := Some ''calculated''\<rparr>))
      else if str_in ''verify'' (lower sub_problem) then
        Returned (step\<lparr>thought := ''Verifying answer against constraints'',
                       verified := True, result := Some ''verified''\<rparr>)
      else Returned step)"

section \<open>Planning: \<open>PlannerAgent\<close>\<close>

definition all_types :: "ProblemType list" where
  "all_types = [SPATIAL_REASONING, MATHEMATICAL, LOGICAL, SEQUENCE, OPTIMIZATION,
                LATERAL_THINKING, CLASSIC_RIDDLE]"

fun problem_keywords :: "ProblemType \<Rightarrow> string list" where
  "problem_keywords SPATIAL_REASONING =
     [''cube'', ''3d'', ''surface'', ''volume'', ''faces'', ''edges'',
      ''corner'', ''diagonal'', ''geometry'', ''shape'', ''rotate'', ''painted'']"
| "problem_keywords MATHEMATICAL =
     [''calculate'', ''equation'', ''sum'', ''multiply'', ''divide'',
      ''percentage'', ''ratio'', ''average'', ''total'', ''machines'']"
| "problem_keywords LOGICAL =
     [''if'', ''then'', ''true'', ''false'', ''statement'', ''consistent'',
      ''contradiction'', ''must be'', ''cannot be'', ''machine'', ''button'']"
| "problem_keywords SEQUENCE =
     [''sequence'', ''pattern'', ''next number'', ''series'', ''follows'',
      ''continue'', ''missing'', ''dots'']"
| "problem_keywords OPTIMIZATION =
     [''minimize'', ''maximize'', ''optimal'', ''best'', ''schedule'',
      ''efficiency'', ''shortest'', ''longest'', ''most'', ''least'',
      ''planning'', ''days'', ''hours'', ''tasks'']"
| "problem_keywords LATERAL_THINKING =
     [''how can'', ''possible'', ''unexpected'', ''strange'',
      ''shoots'', ''underwater'', ''hangs'', ''dies'', ''survived'']"
| "problem_keywords CLASSIC_RIDDLE =
     [''riddle'', ''what am i'', ''puzzle'', ''classic'', ''race'',
      ''overtake'', ''position'', ''gold coins'', ''will'', ''divide'']"

definition score :: "string \<Rightarrow> ProblemType \<Rightarrow> nat" where
  "score problem_lower ptype =
     length (filter (\<lambda>keyword. str_in keyword problem_lower) (problem_keywords ptype))"

text \<open>\<open>max(scores, key=scores.get)\<close>: the first key, in insertion order, of maximal score.\<close>

fun first_max :: "('a \<Rightarrow> nat) \<Rightarrow> 'a \<Rightarrow> 'a list \<Rightarrow> 'a" where
  "first_max f best [] = best"
| "first_max f best (x # xs) = (if f best < f x then first_max f x xs else first_max f best xs)"

definition replace_spaces :: "string \<Rightarrow> string" where
  "replace_spaces s = map (\<lambda>c. if c = CHR '' '' then CHR ''_'' else c) s"

definition classify_problem :: "string \<Rightarrow> string option \<Rightarrow> ProblemType" where
  "classify_problem prob topic =
     (let problem_lower = lower prob;
          hint = (case topic of
                    None \<Rightarrow> None
                  | Some t \<Rightarrow>
                      if t = [] then None
                      else first_such (\<lambda>ptype. str_in (type_value ptype) (replace_spaces (lower t))
                                                \<or> str_in (replace_spaces (lower t)) (type_value ptype))
                             all_types)
      in case hint of
           Some ptype \<Rightarrow> ptype
         | None \<Rightarrow>
             if 0 < score problem_lower (first_max (score problem_lower) SPATIAL_REASONING
                                           (tl all_types))
             then first_max (score problem_lower) SPATIAL_REASONING (tl all_types)
             else LOGICAL)"

fun select_strategy :: "ProblemType \<Rightarrow> ReasoningStrategy" where
  "select_strategy SPATIAL_REASONING = SPATIAL_VISUALIZATION"
| "select_strategy MATHEMATICAL = DIRECT_CALCULATION"
| "select_strategy LOGICAL = STEP_BY_STEP_LOGIC"
| "select_strategy SEQUENCE = PATTERN_RECOGNITION"
| "select_strategy OPTIMIZATION = CONSTRAINT_SATISFACTION"
| "select_strategy LATERAL_THINKING = CREATIVE_THINKING"
| "select_strategy CLASSIC_RIDDLE = CREATIVE_THINKING"

fun decompose_problem :: "ProblemType \<Rightarrow> string list" where
  "decompose_problem SPATIAL_REASONING =
     [''Identify the geometric shape/structure'', ''Determine relevant dimensions'',
      ''Apply spatial formulas or logic'', ''Calculate the answer'']"
| "decompose_problem MATHEMATICAL =
     [''Extract numerical values and relationships'', ''Set up equations or formulas'',
      ''Perform calculations'', ''Verify answer against constraints'']"
| "decompose_problem SEQUENCE =
     [''Identify the given sequence'', ''Analyze differences or ratios'',
      ''Determine the pattern rule'', ''Apply rule to find next term'']"
| "decompose_problem OPTIMIZATION =
     [''Identify constraints and objectives'', ''List all possible approaches'',
      ''Evaluate each option'', ''Select optimal solution'']"
| "decompose_problem LOGICAL =
     [''Identify given facts and conditions'', ''Determine what needs to be proven'',
      ''Apply logical rules step by step'', ''Reach conclusion'']"
| "decompose_problem _ =
     [''Identify literal interpretation'', ''Consider alternative meanings'',
      ''Apply creative thinking'', ''Find unconventional solution'']"

definition identify_tools :: "ProblemType \<Rightarrow> string \<Rightarrow> string list" where
  "identify_tools ptype prob =
     [''reasoning_engine'']
     @ (if ptype = MATHEMATICAL \<or> ptype = SPATIAL_REASONING
        then [''calculator'', ''symbolic_solver''] else [])
     @ (if ptype = SEQUENCE then [''pattern_analyzer'', ''calculator''] else [])
     @ (if ptype = OPTIMIZATION then [''constraint_solver'', ''calculator''] else [])
     @ (if str_in ''code'' (lower prob) \<or> str_in ''program'' (lower prob)
        then [''code_executor''] else [])
     @ [''verifier'']"

text \<open>\<open>s.split('.')\<close>: the pieces between the separators, empty pieces included.\<close>

fun split_on :: "char \<Rightarrow> string \<Rightarrow> string \<Rightarrow> string list" where
  "split_on sep w [] = [rev w]"
| "split_on sep w (c # cs) =
     (if c = sep then rev w # split_on sep [] cs else split_on sep (c # w) cs)"

definition constraint_indicators :: "string list" where
  "constraint_indicators =
     [''must'', ''cannot'', ''only'', ''exactly'', ''at least'', ''at most'',
      ''without'', ''given that'', ''assuming'', ''if'', ''provided that'']"

definition extract_constraints :: "string \<Rightarrow> string list" where
  "extract_constraints prob =
     map strip
       (filter (\<lambda>sentence. list_ex (\<lambda>indicator. str_in indicator (lower sentence))
                                    constraint_indicators)
               (split_on CHR ''.'' [] prob))"

definition determine_answer_format :: "string \<Rightarrow> string" where
  "determine_answer_format prob =
     (let problem_lower = lower prob
      in if str_in ''how many'' problem_lower then ''integer''
         else if str_in ''what is the'' problem_lower then
           (if str_in ''percentage'' problem_lower \<or> str_in ''%'' prob then ''percentage''
            else if str_in ''ratio'' problem_lower then ''ratio''
            else ''value'')
         else if str_in ''which'' problem_lower \<or> str_in ''what'' problem_lower
         then ''categorical''
         else if str_in ''true or false'' problem_lower then ''boolean''
         else ''text'')"

text \<open>
  The planner's own call of the oracle (\<open>understand_problem\<close>) is left out: its result is
  never read and its failure is swallowed.
\<close>

definition create_plan :: "string \<Rightarrow> string option \<Rightarrow> ReasoningPlan" where
  "create_plan prob topic =
     (let ptype = classify_problem prob topic
      in \<lparr>problem_type = ptype, strategy = select_strategy ptype,
          sub_problems = decompose_problem ptype,
          required_tools = identify_tools ptype prob,
          constraints = extract_constraints prob,
          expected_answer_format = determine_answer_format prob,
          confidence_threshold = 7 / 10\<rparr>)"

section \<open>Orchestration: \<open>AgenticReasoningSystem.solve\<close>\<close>

record SolutionResult =
  sr_problem :: string
  answer :: string
  reasoning_chain :: ReasoningChain
  verification :: VerificationResult
  sr_confidence :: rat
  execution_time :: rat

text \<open>
  The state that outlives a call: the solution cache and the reasoner's current chain. The
  two clock readings of a call are arguments. A final answer that is \<open>None\<close> would
  make \<open>_refine_answer\<close> raise on \<open>None.lower()\<close>; that is the error value.
\<close>

record system_state =
  solution_cache :: "string \<Rightarrow> SolutionResult option"
  current_chain :: "ReasoningChain option"

datatype py_error = AttributeError

definition solve ::
  "(pyfloat \<Rightarrow> string) \<Rightarrow> handlers \<Rightarrow> mistral_tool option \<Rightarrow> system_state \<Rightarrow> rat \<times> rat
   \<Rightarrow> string \<Rightarrow> string option \<Rightarrow> string list option
   \<Rightarrow> (py_error + SolutionResult) \<times> system_state" where
  "solve fstr hs mistral sys clock prob topic options =
     (let pl = create_plan prob topic;
          chain0 = execute_plan fstr hs mistral prob pl options;
          (verif, chain) = verify_chain chain0;
          final_confidence = calculate_confidence_score chain verif
      in case final_answer chain of
           None \<Rightarrow> (Inl AttributeError, sys\<lparr>current_chain := Some chain\<rparr>)
         | Some preliminary \<Rightarrow>
             (let res = \<lparr>sr_problem = prob, answer = refine_answer preliminary options,
                         reasoning_chain = chain, verification = verif,
                         sr_confidence = final_confidence,
                         execution_time = snd clock - fst clock\<rparr>
              in (Inr res,
                  \<lparr>solution_cache = (solution_cache sys)(prob := Some res),
                   current_chain = Some chain\<rparr>)))"

section \<open>Statements of the cascades\<close>

text \<open>
  The reconciliation cascade in words: at each of the first four ranks the first option, in
  list order, that meets the rank's test; the fourth rank only for an answer outside the
  status list, and with the test that the option shares a word with the answer.
\<close>

definition reconcile_spec :: "string \<Rightarrow> string list \<Rightarrow> string" where
  "reconcile_spec p opts =
     (if list_ex (exact_match p) opts then hd (filter (exact_match p) opts)
      else if list_ex (answer_in_option p) opts then hd (filter (answer_in_option p) opts)
      else if list_ex (option_in_answer p) opts then hd (filter (option_in_answer p) opts)
      else if p \<notin> set refine_status_strings \<and> list_ex (words_overlap p) opts
      then hd (filter (words_overlap p) opts)
      else if (p \<in> set refine_status_strings \<or> p = [] \<or> p = unable)
              \<and> ''Another answer'' \<in> set opts
      then ''Another answer''
      else p)"

text \<open>The two tests of validation that go beyond emptiness and the status list.\<close>

definition option_matches :: "string \<Rightarrow> string \<Rightarrow> bool" where
  "option_matches res opt =
     (strip res = strip opt \<or> str_in (lower res) (lower opt) \<or> str_in (lower opt) (lower res))"

definition first_number_ok :: "string \<Rightarrow> string \<Rightarrow> bool" where
  "first_number_ok res prob =
     (case findall_numbers res of
        [] \<Rightarrow> True
      | m # _ \<Rightarrow>
          \<not> float_gt (float_abs (float_of_match m)) 1000000
          \<and> (if str_in ''percentage'' (lower prob) \<or> str_in ''%'' prob
             then \<not> float_gt (float_of_match m) 100 else True))"

text \<open>
  A step whose tool output the synthesizer's first loop answers from, and the answer it
  gives.
\<close>

definition usable_output :: "ReasoningStep \<Rightarrow> bool" where
  "usable_output step =
     (case tool_output step of
        Some (VInt i) \<Rightarrow> True
      | Some (VFloat f) \<Rightarrow> True
      | Some (VStr s) \<Rightarrow> s \<notin> set status_strings
      | _ \<Rightarrow> False)"

definition answer_from_output ::
  "(pyfloat \<Rightarrow> string) \<Rightarrow> ReasoningStep \<Rightarrow> string list option \<Rightarrow> string" where
  "answer_from_output fstr step options =
     (case tool_output step of
        Some (VStr s) \<Rightarrow> string_answer s options
      | Some v \<Rightarrow> numeric_answer fstr v options
      | None \<Rightarrow> [])"

section \<open>Chains for the examples\<close>

definition ex_plan :: ReasoningPlan where
  "ex_plan =
     \<lparr>problem_type = LOGICAL, strategy = STEP_BY_STEP_LOGIC, sub_problems = [''a'', ''b''],
      required_tools = [], constraints = [], expected_answer_format = ''text'',
      confidence_threshold = 7 / 10\<rparr>"

definition out_step :: "nat \<Rightarrow> tool_value \<Rightarrow> ReasoningStep" where
  "out_step n v = (new_step n ''a'')\<lparr>tool_output := Some v\<rparr>"

definition chain_of :: "ReasoningStep list \<Rightarrow> ReasoningChain" where
  "chain_of ss =
     \<lparr>problem = ''p'', plan = ex_plan, steps = ss, final_answer = None, overall_confidence = 0\<rparr>"



text \<open>A plan of three sub-problems and handlers whose logical handler raises on the second.\<close>

definition ex_plan3 :: ReasoningPlan where
  "ex_plan3 = ex_plan\<lparr>sub_problems := [''a'', ''b'', ''c'']\<rparr>"

definition ex_handlers :: handlers where
  "ex_handlers =
     \<lparr>h_sequence = (\<lambda>prev step p sp. Returned step),
      h_spatial = (\<lambda>prev step p sp. Returned step),
      h_mathematical = (\<lambda>prev step p sp. Returned step),
      h_optimization = (\<lambda>prev step p sp opts. Returned step),
      h_logical = (\<lambda>prev step p sp opts.
                     if sp = ''b'' then Raised ''boom'' (step\<lparr>tool_used := Some ''solver''\<rparr>)
                     else Returned (step\<lparr>result := Some (''seen '' @ sp)\<rparr>)),
      h_general = (\<lambda>prev step p sp opts. Returned step)\<rparr>"

definition ex_chain :: ReasoningChain where
  "ex_chain = chain_of [out_step 1 (VInt 5), out_step 2 (VStr ''foo'')]"


text \<open>A chain of the one step \<open>Calculate the answer\<close>, with a result and a final answer.\<close>

definition calculate_chain :: ReasoningChain where
  "calculate_chain =
     \<lparr>problem = ''p'', plan = ex_plan\<lparr>sub_problems := [''Calculate the answer'']\<rparr>,
      steps = [(new_step 1 ''Calculate the answer'')\<lparr>result := Some ''96''\<rparr>],
      final_answer = Some ''96'', overall_confidence = 0\<rparr>"

section \<open>The two-machines scenario and a chain with a status string as tool output\<close>

definition work_problem :: string where
  "work_problem = ''Two machines take 12 hours and 6 hours respectively to complete a job. How long will they take working together?''"

text \<open>
  Handlers for the scenario: the mathematical handler of the source over a calculator that
  evaluates the product it is given, with nothing below the work-rate solver.
\<close>

definition scenario_handlers :: handlers where
  "scenario_handlers =
     ex_handlers\<lparr>h_mathematical :=
       handle_mathematical_step (\<lambda>f. ''72.0'')
         (\<lambda>expr. if expr = ''12*6'' then Some (VFloat (Finite 72)) else None)
         (\<lambda>step prob. Returned step)\<rparr>"


definition empty_system :: system_state where
  "empty_system = \<lparr>solution_cache = (\<lambda>k. None), current_chain = None\<rparr>"

section \<open>Properties of the executor and the self-corrector\<close>

lemma clamp_confidence_range: "1 / 10 \<le> clamp_confidence c \<and> clamp_confidence c \<le> 19 / 20"
  by (simp add: clamp_confidence_def max_def min_def)

lemma calculate_confidence_range:
  "1 / 10 \<le> calculate_confidence fstr res prob rs vr \<and> calculate_confidence fstr res prob rs vr \<le> 19 / 20"
  unfolding calculate_confidence_def Let_def by (rule clamp_confidence_range)

lemma self_correct_confidence:
  "snd (snd (self_correct fstr p prob rs opts)) =
     calculate_confidence fstr (fst (self_correct fstr p prob rs opts)) prob rs None"
  unfolding self_correct_def Let_def by (simp split: prod.splits)

lemma execute_plan_confidence:
  "overall_confidence (execute_plan fstr hs mistral prob pl opts) =
     snd (snd (corrected_of fstr hs mistral prob pl opts))"
  unfolding execute_plan_def Let_def by (simp split: prod.splits)

lemma execute_plan_final_answer:
  "final_answer (execute_plan fstr hs mistral prob pl opts) =
     Some (fst (corrected_of fstr hs mistral prob pl opts))"
  unfolding execute_plan_def Let_def by (simp split: prod.splits)

lemma execute_plan_steps:
  "steps (execute_plan fstr hs mistral prob pl opts) =
     executed_steps hs mistral prob pl opts @
     (if fst (corrected_of fstr hs mistral prob pl opts) \<noteq> preliminary_of fstr hs mistral prob pl opts
      then [\<lparr>step_number = length (executed_steps hs mistral prob pl opts) + 1,
             action = ''Self-correction'',
             thought = fst (snd (corrected_of fstr hs mistral prob pl opts)),
             tool_used = Some ''self_corrector'', tool_output = None,
             result = Some (fst (corrected_of fstr hs mistral prob pl opts)),
             verified = True,
             confidence = snd (snd (corrected_of fstr hs mistral prob pl opts))\<rparr>]
      else [])"
  unfolding execute_plan_def Let_def by (simp split: prod.splits)

lemma length_run_sub_problems:
  "length (run_sub_problems hs mistral prob pl opts n sps acc) = length acc + length sps"
  by (induction sps arbitrary: n acc) simp_all

lemma length_executed_steps:
  "length (executed_steps hs mistral prob pl opts) = length (sub_problems pl)"
  by (simp add: executed_steps_def length_run_sub_problems)

text \<open>
  Claim C5. Whatever the answer, the problem, the steps and the verification result, the
  confidence that the self-corrector computes lies in the closed interval from 0.1 to 0.95,
  so it is never 0 and never 1. \<open>execute_plan\<close> stores this value, computed for the
  corrected answer over the executed steps, as the chain's overall confidence, which
  therefore lies between 0 and 1.
\<close>

theorem confidence_bounds:
  "1 / 10 \<le> calculate_confidence fstr res prob rs vr
   \<and> calculate_confidence fstr res prob rs vr \<le> 19 / 20
   \<and> calculate_confidence fstr res prob rs vr \<noteq> 0
   \<and> calculate_confidence fstr res prob rs vr \<noteq> 1
   \<and> overall_confidence (execute_plan fstr hs mistral p pl opts) =
       calculate_confidence fstr (fst (corrected_of fstr hs mistral p pl opts)) p
         (executed_steps hs mistral p pl opts) None
   \<and> 0 \<le> overall_confidence (execute_plan fstr hs mistral p pl opts)
   \<and> overall_confidence (execute_plan fstr hs mistral p pl opts) \<le> 1"
proof -
  have r: "1 / 10 \<le> calculate_confidence fstr a b c d \<and> calculate_confidence fstr a b c d \<le> 19 / 20"
    for a b c d by (rule calculate_confidence_range)
  have e: "overall_confidence (execute_plan fstr hs mistral p pl opts) =
       calculate_confidence fstr (fst (corrected_of fstr hs mistral p pl opts)) p
         (executed_steps hs mistral p pl opts) None"
    by (simp add: execute_plan_confidence corrected_of_def self_correct_confidence)
  from r[of res prob rs vr] r[of "fst (corrected_of fstr hs mistral p pl opts)" p "executed_steps hs mistral p pl opts" None] e
  show ?thesis by auto
qed

text \<open>
  Claim C8. After \<open>execute_plan\<close> the chain holds one step for each sub-problem of the
  plan, and one more exactly when the corrected answer differs from the preliminary answer:
  the number of steps is the number of sub-problems or that number plus one.
\<close>

theorem chain_length:
  "length (steps (execute_plan fstr hs mistral p pl opts)) =
     length (sub_problems pl) +
     (if fst (corrected_of fstr hs mistral p pl opts) \<noteq> preliminary_of fstr hs mistral p pl opts
      then 1 else 0)
   \<and> length (sub_problems pl) \<le> length (steps (execute_plan fstr hs mistral p pl opts))
   \<and> (length (steps (execute_plan fstr hs mistral p pl opts)) = length (sub_problems pl)
      \<or> length (steps (execute_plan fstr hs mistral p pl opts)) = length (sub_problems pl) + 1)"
  by (simp add: execute_plan_steps length_executed_steps)

section \<open>Properties of reconciliation and validation\<close>

lemma first_such_filter:
  "first_such P xs = (if list_ex P xs then Some (hd (filter P xs)) else None)"
  by (induction xs) simp_all

text \<open>
  Claim C2, as the code has it. For every preliminary answer and every option list, final
  reconciliation returns, in this order: the first option equal to the answer up to case and
  surrounding white space; else the first option that contains the answer, case ignored;
  else the first option that the answer contains, case ignored; else, when the answer is
  none of \<open>processed\<close>, \<open>calculated\<close>, \<open>verified\<close>, \<open>Another answer\<close>, the first
  option, in list order, that shares at least one white-space separated word with the
  answer, case ignored; else the option \<open>Another answer\<close> when the answer is one of those
  four strings, empty or \<open>Unable to determine answer\<close> and that option is in the list;
  else the answer unchanged. Without options the answer is returned unchanged.
\<close>

theorem refine_answer_cascade:
  "refine_answer p (Some opts) = reconcile_spec p opts \<and> refine_answer p None = p"
  unfolding refine_answer_def reconcile_spec_def
  by (simp add: first_such_filter)

text \<open>
  Claim C2 as stated fails at its fourth rank: with the answer \<open>big red dog\<close> and the
  options \<open>red cat\<close> and \<open>red dog big\<close> no earlier rank matches, the second option
  shares three words with the answer and the first only one, and the first is returned.
\<close>

theorem refine_answer_largest_overlap_counterexample:
  "refine_answer ''big red dog'' (Some [''red cat'', ''red dog big'']) = ''red cat''
   \<and> length (common_words ''big red dog'' ''red cat'') = 1
   \<and> length (common_words ''big red dog'' ''red dog big'') = 3
   \<and> ''big red dog'' \<notin> set refine_status_strings
   \<and> \<not> list_ex (exact_match ''big red dog'') [''red cat'', ''red dog big'']
   \<and> \<not> list_ex (answer_in_option ''big red dog'') [''red cat'', ''red dog big'']
   \<and> \<not> list_ex (option_in_answer ''big red dog'') [''red cat'', ''red dog big'']"
  by code_simp

text \<open>
  Claim C4, as the code has it. Validation judges an answer valid exactly when it is not
  empty, it is not a status string once lowered and stripped, and either it matches one of
  the supplied options (equal after stripping, or one contains the other with case ignored)
  or the first number found in it, if any, read as a binary64 float, has magnitude at most
  1,000,000 and, when the problem mentions a percentage, is at most 100. An option match is
  decided before the number is looked at, and only the first number is looked at.
\<close>

theorem validate_result_characterisation:
  "fst (validate_result fstr res prob options) =
     (res \<noteq> [] \<and> strip (lower res) \<notin> set validate_status_strings
      \<and> (list_ex (option_matches res) (opts_of options) \<or> first_number_ok res prob))"
proof -
  have n: "fst (number_check fstr res prob) = first_number_ok res prob"
    unfolding number_check_def first_number_ok_def Let_def
    by (auto split: list.splits)
  have e: "list_ex (option_matches res) xs =
           (list_ex (\<lambda>opt. strip res = strip opt) xs
            \<or> list_ex (\<lambda>opt. str_in (lower res) (lower opt) \<or> str_in (lower opt) (lower res)) xs)" for xs
    by (induction xs) (auto simp: option_matches_def)
  show ?thesis
    unfolding validate_result_def
    by (simp add: first_such_filter n e)
qed

text \<open>
  Claim C4 as stated fails twice: the answer \<open>2000000\<close> is judged valid when it is one
  of the options, and the answer \<open>9 or 2000000\<close> is judged valid without options, since
  only its first number is checked.
\<close>

theorem validate_result_option_counterexample:
  "fst (validate_result (\<lambda>f. []) ''2000000'' ''How many grains?'' (Some [''2000000'', ''7''])) = True
   \<and> findall_numbers ''2000000'' = [''2000000'']
   \<and> float_of_match ''2000000'' = Finite 2000000
   \<and> fst (validate_result (\<lambda>f. []) ''9 or 2000000'' ''How many grains?'' None) = True
   \<and> findall_numbers ''9 or 2000000'' = [''9'', ''2000000'']"
  by code_simp

text \<open>
  The bound is on the float: a decimal just above 1,000,000 that rounds to 1000000.0 is
  valid, and so is one just above 100 in a percentage problem.
\<close>

lemma validate_result_rounds:
  "fst (validate_result (\<lambda>f. []) ''1000000.00000000001'' ''How many grains?'' None) = True
   \<and> fst (validate_result (\<lambda>f. []) ''100.00000000000000001'' ''What % is it?'' None) = True
   \<and> fst (validate_result (\<lambda>f. []) ''1000000.1'' ''How many grains?'' None) = False"
  by code_simp

section \<open>Properties of answer synthesis\<close>

lemma scan_tool_outputs_skip:
  "list_all (\<lambda>s. \<not> usable_output s) ys \<Longrightarrow>
   scan_tool_outputs fstr options (ys @ zs) = scan_tool_outputs fstr options zs"
  by (induction ys) (auto simp: usable_output_def split: option.splits tool_value.splits)

lemma scan_tool_outputs_hit:
  "usable_output step \<Longrightarrow>
   scan_tool_outputs fstr options (step # zs) = Some (answer_from_output fstr step options)"
  by (auto simp: usable_output_def answer_from_output_def split: option.splits tool_value.splits)

lemma usable_foo: "usable_output (out_step 2 (VStr ''foo''))"
  by code_simp

lemma answer_foo: "answer_from_output (\<lambda>f. []) (out_step 2 (VStr ''foo'')) None = ''foo''"
  by code_simp

text \<open>
  Claim C3, as the code has it. The synthesizer's first loop is one scan over the steps,
  most recent first, and it answers from the first step whose tool output is a number or a
  string outside the status list, whichever of the two it is. A number is printed
  (an integer-valued float as the integer) and the first option that equals it, contains it
  or starts with it is preferred; a string is matched against the options by containment in
  either direction, case ignored. So the most recent such step decides, whatever earlier
  steps hold.
\<close>

theorem determine_final_answer_most_recent_output:
  assumes "steps chain = pre @ step # post"
    and "usable_output step"
    and "list_all (\<lambda>s. \<not> usable_output s) post"
  shows "determine_final_answer fstr mistral chain options = answer_from_output fstr step options"
proof -
  have r: "rev (steps chain) = rev post @ step # rev pre"
    using assms(1) by simp
  have "list_all (\<lambda>s. \<not> usable_output s) (rev post)"
    using assms(3) by (simp add: list_all_iff)
  then have "scan_tool_outputs fstr options (rev post @ step # rev pre) =
             scan_tool_outputs fstr options (step # rev pre)"
    by (rule scan_tool_outputs_skip)
  also have "\<dots> = Some (answer_from_output fstr step options)"
    using assms(2) by (rule scan_tool_outputs_hit)
  finally have "scan_tool_outputs fstr options (rev (steps chain)) =
             Some (answer_from_output fstr step options)"
    unfolding r .
  then show ?thesis
    by (simp add: determine_final_answer_def)
qed

theorem determine_final_answer_most_recent_output_witness:
  "steps (chain_of [out_step 1 (VInt 5), out_step 2 (VStr ''foo'')]) =
     [out_step 1 (VInt 5)] @ out_step 2 (VStr ''foo'') # []
   \<and> usable_output (out_step 2 (VStr ''foo''))
   \<and> list_all (\<lambda>s. \<not> usable_output s) []
   \<and> determine_final_answer (\<lambda>f. []) None
        (chain_of [out_step 1 (VInt 5), out_step 2 (VStr ''foo'')]) None = ''foo''"
  using determine_final_answer_most_recent_output
    [of "chain_of [out_step 1 (VInt 5), out_step 2 (VStr ''foo'')]" "[out_step 1 (VInt 5)]"
        "out_step 2 (VStr ''foo'')" "[]" "\<lambda>f. []" None None]
  by (simp add: chain_of_def usable_foo answer_foo)

text \<open>
  Claim C3 as stated fails: with the integer 5 as the tool output of the first step and the
  string \<open>foo\<close> as that of the second, the answer is \<open>foo\<close>, not \<open>5\<close>.
\<close>

theorem determine_final_answer_numeric_priority_counterexample:
  "determine_final_answer (\<lambda>f. []) None
     (chain_of [out_step 1 (VInt 5), out_step 2 (VStr ''foo'')]) None = ''foo''
   \<and> numeric_answer (\<lambda>f. []) (VInt 5) None = ''5''
   \<and> ''foo'' \<notin> set status_strings"
  by code_simp

section \<open>Properties of step execution\<close>

lemma run_sub_problems_prefix:
  "take (length acc) (run_sub_problems hs mistral prob pl opts n sps acc) = acc"
proof (induction sps arbitrary: n acc)
  case Nil
  then show ?case by simp
next
  case (Cons sp sps)
  let ?acc' = "acc @ [execute_sub_problem hs mistral acc n sp prob pl opts]"
  have "take (length ?acc') (run_sub_problems hs mistral prob pl opts (n + 1) sps ?acc') = ?acc'"
    by (rule Cons.IH)
  then have "take (length acc) (take (length ?acc')
               (run_sub_problems hs mistral prob pl opts (n + 1) sps ?acc')) = take (length acc) ?acc'"
    by simp
  then show ?case by (simp add: min_def)
qed

lemma run_sub_problems_nth:
  "j < length sps \<Longrightarrow>
   run_sub_problems hs mistral prob pl opts n sps acc ! (length acc + j) =
     execute_sub_problem hs mistral
       (take (length acc + j) (run_sub_problems hs mistral prob pl opts n sps acc))
       (n + j) (sps ! j) prob pl opts"
proof (induction sps arbitrary: n acc j)
  case Nil
  then show ?case by simp
next
  case (Cons sp sps)
  let ?e = "execute_sub_problem hs mistral acc n sp prob pl opts"
  let ?acc' = "acc @ [?e]"
  let ?r = "run_sub_problems hs mistral prob pl opts (n + 1) sps ?acc'"
  have p: "take (length ?acc') ?r = ?acc'" by (rule run_sub_problems_prefix)
  show ?case
  proof (cases j)
    case 0
    have "length acc < length ?r" by (simp add: length_run_sub_problems)
    then have "?r ! length acc = take (length ?acc') ?r ! length acc" by simp
    then have a: "?r ! length acc = ?e" unfolding p by simp
    have "take (length acc) (take (length ?acc') ?r) = take (length acc) ?acc'"
      using p by simp
    then have b: "take (length acc) ?r = acc" by (simp add: min_def)
    show ?thesis using 0 a b by simp
  next
    case (Suc k)
    then have "k < length sps" using Cons.prems by simp
    from Cons.IH[OF this, of "n + 1" ?acc'] show ?thesis using Suc by simp
  qed
qed

lemma executed_steps_nth:
  "j < length (sub_problems pl) \<Longrightarrow>
   executed_steps hs mistral prob pl opts ! j =
     execute_sub_problem hs mistral (take j (executed_steps hs mistral prob pl opts))
       (j + 1) (sub_problems pl ! j) prob pl opts"
  using run_sub_problems_nth[of j "sub_problems pl" hs mistral prob pl opts 1 "[]"]
  by (simp add: executed_steps_def)

lemma execute_plan_nth:
  "j < length (sub_problems pl) \<Longrightarrow>
   steps (execute_plan fstr hs mistral prob pl opts) ! j =
     execute_sub_problem hs mistral (take j (steps (execute_plan fstr hs mistral prob pl opts)))
       (j + 1) (sub_problems pl ! j) prob pl opts"
  by (simp add: execute_plan_steps nth_append length_executed_steps executed_steps_nth)

text \<open>
  Claim C7. If the handler of the sub-problem at position \<open>i\<close> of the plan raises, the
  chain still holds a step at that position, with confidence 0.1 and the thought
  \<open>Error executing step:\<close> followed by the message; \<open>execute_plan\<close> returns a chain
  all the same; the chain has at least as many steps as the plan has sub-problems; and
  every sub-problem of the plan, before and after \<open>i\<close>, has been executed against the
  steps recorded before it.
\<close>

theorem step_failure_is_local:
  assumes "i < length (sub_problems pl)"
    and "route hs (problem_type pl) (take i (steps (execute_plan fstr hs mistral p pl opts)))
           (prepared_step mistral (i + 1) (sub_problems pl ! i) p pl) p (sub_problems pl ! i) opts
         = Raised e s"
  shows "confidence (steps (execute_plan fstr hs mistral p pl opts) ! i) = 1 / 10
    \<and> thought (steps (execute_plan fstr hs mistral p pl opts) ! i) = ''Error executing step: '' @ e
    \<and> length (sub_problems pl) \<le> length (steps (execute_plan fstr hs mistral p pl opts))
    \<and> (\<forall>j < length (sub_problems pl).
          steps (execute_plan fstr hs mistral p pl opts) ! j =
            execute_sub_problem hs mistral (take j (steps (execute_plan fstr hs mistral p pl opts)))
              (j + 1) (sub_problems pl ! j) p pl opts)"
proof -
  have "steps (execute_plan fstr hs mistral p pl opts) ! i =
          s\<lparr>thought := ''Error executing step: '' @ e, confidence := 1 / 10\<rparr>"
    using execute_plan_nth[OF assms(1), of fstr hs mistral p opts] assms(2)
    by (simp add: execute_sub_problem_def)
  then have a: "confidence (steps (execute_plan fstr hs mistral p pl opts) ! i) = 1 / 10
      \<and> thought (steps (execute_plan fstr hs mistral p pl opts) ! i) = ''Error executing step: '' @ e"
    by simp
  have b: "length (sub_problems pl) \<le> length (steps (execute_plan fstr hs mistral p pl opts))"
    by (simp add: execute_plan_steps length_executed_steps)
  have c: "\<forall>j < length (sub_problems pl).
          steps (execute_plan fstr hs mistral p pl opts) ! j =
            execute_sub_problem hs mistral (take j (steps (execute_plan fstr hs mistral p pl opts)))
              (j + 1) (sub_problems pl ! j) p pl opts"
    using execute_plan_nth by blast
  from a b c show ?thesis by blast
qed

lemma ex_raise_position: "1 < length (sub_problems ex_plan3)"
  by code_simp

lemma ex_raise:
  "route ex_handlers (problem_type ex_plan3)
     (take 1 (steps (execute_plan (\<lambda>f. []) ex_handlers None ''p'' ex_plan3 None)))
     (prepared_step None (1 + 1) (sub_problems ex_plan3 ! 1) ''p'' ex_plan3) ''p''
     (sub_problems ex_plan3 ! 1) None
   = Raised ''boom'' ((new_step 2 ''b'')\<lparr>tool_used := Some ''solver''\<rparr>)"
  by code_simp

lemma ex_last_step:
  "steps (execute_plan (\<lambda>f. []) ex_handlers None ''p'' ex_plan3 None) ! 2 =
     (new_step 3 ''c'')\<lparr>result := Some ''seen c'', confidence := 8 / 10\<rparr>
   \<and> length (steps (execute_plan (\<lambda>f. []) ex_handlers None ''p'' ex_plan3 None)) = 3"
  by code_simp

theorem step_failure_is_local_witness:
  "1 < length (sub_problems ex_plan3)
   \<and> route ex_handlers (problem_type ex_plan3)
        (take 1 (steps (execute_plan (\<lambda>f. []) ex_handlers None ''p'' ex_plan3 None)))
        (prepared_step None (1 + 1) (sub_problems ex_plan3 ! 1) ''p'' ex_plan3) ''p''
        (sub_problems ex_plan3 ! 1) None
      = Raised ''boom'' ((new_step 2 ''b'')\<lparr>tool_used := Some ''solver''\<rparr>)
   \<and> confidence (steps (execute_plan (\<lambda>f. []) ex_handlers None ''p'' ex_plan3 None) ! 1) = 1 / 10
   \<and> thought (steps (execute_plan (\<lambda>f. []) ex_handlers None ''p'' ex_plan3 None) ! 1)
       = ''Error executing step: boom''
   \<and> steps (execute_plan (\<lambda>f. []) ex_handlers None ''p'' ex_plan3 None) ! 2 =
       (new_step 3 ''c'')\<lparr>result := Some ''seen c'', confidence := 8 / 10\<rparr>
   \<and> length (steps (execute_plan (\<lambda>f. []) ex_handlers None ''p'' ex_plan3 None)) = 3"
proof -
  note t = step_failure_is_local[OF ex_raise_position ex_raise]
  from t have a:
    "confidence (steps (execute_plan (\<lambda>f. []) ex_handlers None ''p'' ex_plan3 None) ! 1) = 1 / 10"
    by (rule conjunct1)
  from t have b:
    "thought (steps (execute_plan (\<lambda>f. []) ex_handlers None ''p'' ex_plan3 None) ! 1)
       = ''Error executing step: '' @ ''boom''"
    by (rule conjunct1[OF conjunct2])
  show ?thesis
    using a b ex_raise_position ex_raise ex_last_step by simp
qed

section \<open>Properties of chain verification\<close>




text \<open>
  A chain of the one step \<open>Calculate the answer\<close>, without tool and thought, with a
  final answer: its confidence is 0.8 - 0.1 - 0.1, the float 0.6000000000000001, which
  exceeds the float 0.6, and the chain is valid. And the confidence of a chain of two
  steps without a final answer.
\<close>

lemma verify_chain_examples:
  "v_confidence (fst (verify_chain calculate_chain)) = 1351079888211149 / 2251799813685248
   \<and> r64 (6 / 10) = 5404319552844595 / 9007199254740992
   \<and> is_valid (fst (verify_chain calculate_chain)) = True
   \<and> v_confidence (fst (verify_chain ex_chain)) = 5884703513097449 / 18014398509481984"
  by code_simp

section \<open>Properties of the orchestrator\<close>

lemma verify_chain_final_answer:
  "final_answer (snd (verify_chain chain)) = final_answer chain"
  by (simp add: verify_chain_def verify_chain_with_def Let_def)

lemma verify_chain_length:
  "length (steps (snd (verify_chain chain))) = length (steps chain)"
  by (simp add: verify_chain_def verify_chain_with_def Let_def)

lemma solve_result:
  "fst (solve fstr hs mistral sys clock prob topic options) =
     Inr \<lparr>sr_problem = prob,
          answer = refine_answer
                     (fst (corrected_of fstr hs mistral prob (create_plan prob topic) options)) options,
          reasoning_chain =
            snd (verify_chain (execute_plan fstr hs mistral prob (create_plan prob topic) options)),
          verification =
            fst (verify_chain (execute_plan fstr hs mistral prob (create_plan prob topic) options)),
          sr_confidence =
            calculate_confidence_score
              (snd (verify_chain (execute_plan fstr hs mistral prob (create_plan prob topic) options)))
              (fst (verify_chain (execute_plan fstr hs mistral prob (create_plan prob topic) options))),
          execution_time = snd clock - fst clock\<rparr>"
  unfolding solve_def Let_def
  by (simp add: case_prod_beta verify_chain_final_answer execute_plan_final_answer)

lemma solve_cache:
  "solution_cache (snd (solve fstr hs mistral sys clock prob topic options)) =
     (solution_cache sys)
       (prob := (case fst (solve fstr hs mistral sys clock prob topic options) of
                   Inr r \<Rightarrow> Some r | Inl e \<Rightarrow> None))"
  unfolding solve_def Let_def
  by (simp add: case_prod_beta verify_chain_final_answer execute_plan_final_answer)

text \<open>
  Claim C10. For every problem, topic and option list, with handlers and an oracle that are
  functions of their arguments (in particular with no oracle), two consecutive calls of
  \<open>solve\<close> on the same system both return a solution, with the same final answer and
  the same number of steps. The result of a call does not depend on the state it starts
  from, so not on the cache entry that the first call left; the call only overwrites the
  entry of its problem with its own result.
\<close>

theorem solve_idempotent:
  "\<exists>r1 r2.
     fst (solve fstr hs mistral sys c1 prob topic options) = Inr r1
     \<and> fst (solve fstr hs mistral (snd (solve fstr hs mistral sys c1 prob topic options)) c2
              prob topic options) = Inr r2
     \<and> answer r2 = answer r1
     \<and> length (steps (reasoning_chain r2)) = length (steps (reasoning_chain r1))
     \<and> (\<forall>sys'. fst (solve fstr hs mistral sys' c2 prob topic options) = Inr r2)
     \<and> solution_cache
          (snd (solve fstr hs mistral (snd (solve fstr hs mistral sys c1 prob topic options)) c2
                  prob topic options)) prob = Some r2"
  by (simp add: solve_result solve_cache)

section \<open>Two runs of the pipeline\<close>






lemma scenario_type: "problem_type (create_plan work_problem None) = MATHEMATICAL"
  by code_simp

lemma scenario_work_rate: "solve_work_rate_problem work_problem = Inr (Some ''4 hours'')"
  by code_simp

lemma scenario_outputs:
  "map tool_output
     (executed_steps scenario_handlers None work_problem (create_plan work_problem None) None)
   = [None, Some (VStr ''4 hours''), Some (VFloat (Finite 72)), None]"
  by code_simp

lemma scenario_corrected:
  "fst (corrected_of (\<lambda>f. ''72.0'') scenario_handlers None work_problem
     (create_plan work_problem None) None) = ''72''"
  by code_simp

text \<open>
  Claim C9, evaluated. For the two-machines problem, given without topic or options, the
  plan is mathematical; the second step applies the combined-rate formula and records
  \<open>4 hours\<close>; the third step multiplies the first two numbers of the problem and records
  the float 72; answer synthesis, most recent first, takes the 72. The final answer is
  \<open>72\<close>, not \<open>4 hours\<close>.
\<close>

theorem two_machines_answer:
  "map_sum id answer
     (fst (solve (\<lambda>f. ''72.0'') scenario_handlers None empty_system (0, 1) work_problem None None))
     = Inr ''72''
   \<and> problem_type (create_plan work_problem None) = MATHEMATICAL
   \<and> solve_work_rate_problem work_problem = Inr (Some ''4 hours'')
   \<and> map tool_output
        (executed_steps scenario_handlers None work_problem (create_plan work_problem None) None)
      = [None, Some (VStr ''4 hours''), Some (VFloat (Finite 72)), None]"
  using scenario_type scenario_work_rate scenario_outputs
  by (simp add: solve_result scenario_corrected refine_answer_def)

end
